theory Spec2Isabelle
  imports Complex_Main "HOL-Library.Sublist" "HOL-Library.Char_ord" "HOL-Library.List_Lexorder"
begin

section \<open>Data model\<close>

text \<open>
  The script \<^verbatim>\<open>finalproject.py\<close> loads \<^verbatim>\<open>listings.csv\<close> into a pandas DataFrame and
  filters and aggregates it. A DataFrame is modelled as the list of its rows, in row order;
  a row carries the columns the script reads. The \<^verbatim>\<open>name\<close> column may hold a missing value
  (the script passes \<^verbatim>\<open>na=False\<close> for it), so it is optional; the numeric columns are
  taken to be fully populated and are exact rationals and integers, so a mean is the exact
  quotient. The \<^verbatim>\<open>name\<close> column is a column of text (pandas' object dtype), on which
  the \<^verbatim>\<open>.str\<close> accessor is defined. A pandas float that may be NaN (a mean, a minimum)
  is a \<open>rat option\<close>, with \<open>None\<close> for NaN.

  A Python \<^verbatim>\<open>str\<close> is a \<open>string\<close> whose characters are read as code points below 256.
\<close>

record listing =
  name :: "string option"
  neighbourhood :: string
  room_type :: string
  price :: rat
  availability_365 :: int
  number_of_reviews :: int
  latitude :: rat
  longitude :: rat

text \<open>
  What a call can raise. \<open>PatternError\<close> is Python's \<^verbatim>\<open>re.error\<close>, \<open>ValueError\<close> is raised
  by \<^verbatim>\<open>idxmax\<close> and \<^verbatim>\<open>idxmin\<close> on an empty Series. \<open>PatternOutsideModel\<close> is not a
  Python exception: it marks a search text that uses regular-expression syntax which this
  development does not interpret, and no theorem below draws a conclusion from it.
\<close>

datatype error = PatternError | ValueError | PatternOutsideModel

section \<open>Column operations\<close>

text \<open>
  \<^verbatim>\<open>df[col] >= v\<close>, \<^verbatim>\<open>df[col] <= v\<close>, \<^verbatim>\<open>df[col] == v\<close> and \<^verbatim>\<open>df[col].isin(vs)\<close> build
  a boolean mask, one entry per row; \<^verbatim>\<open>&\<close> combines two masks entry by entry; \<^verbatim>\<open>df[mask]\<close>
  keeps the rows whose entry is true, in their order.
\<close>

definition col_ge :: "'a::ord list \<Rightarrow> 'a \<Rightarrow> bool list" where
  "col_ge col v = map (\<lambda>x. v \<le> x) col"

definition col_le :: "'a::ord list \<Rightarrow> 'a \<Rightarrow> bool list" where
  "col_le col v = map (\<lambda>x. x \<le> v) col"

definition col_eq :: "'a list \<Rightarrow> 'a \<Rightarrow> bool list" where
  "col_eq col v = map (\<lambda>x. x = v) col"

definition col_isin :: "'a list \<Rightarrow> 'a list \<Rightarrow> bool list" where
  "col_isin col vs = map (\<lambda>x. x \<in> set vs) col"

definition mask_and :: "bool list \<Rightarrow> bool list \<Rightarrow> bool list" where
  "mask_and m1 m2 = map (\<lambda>(a, b). a \<and> b) (zip m1 m2)"

definition getitem_mask :: "'a list \<Rightarrow> bool list \<Rightarrow> 'a list" where
  "getitem_mask df msk = map fst (filter snd (zip df msk))"

text \<open>
  \<^verbatim>\<open>Series.mean()\<close>, \<^verbatim>\<open>Series.min()\<close> and \<^verbatim>\<open>Series.max()\<close>: NaN on an empty Series.
\<close>

definition series_mean :: "rat list \<Rightarrow> rat option" where
  "series_mean xs = (if xs = [] then None else Some (sum_list xs / of_nat (length xs)))"

fun series_min :: "rat list \<Rightarrow> rat option" where
  "series_min [] = None"
| "series_min (x # xs) = Some (fold min xs x)"

fun series_max :: "rat list \<Rightarrow> rat option" where
  "series_max [] = None"
| "series_max (x # xs) = Some (fold max xs x)"

section \<open>Case-insensitive pattern search\<close>

text \<open>
  \<^verbatim>\<open>Series.str.contains(pat, case=False, na=False)\<close> leaves \<^verbatim>\<open>regex\<close> at its default
  \<^verbatim>\<open>True\<close>: pandas compiles \<^verbatim>\<open>pat\<close> as a regular expression with \<^verbatim>\<open>re.IGNORECASE\<close> and
  tests every non-missing entry with \<^verbatim>\<open>search\<close>; a missing entry gives \<^verbatim>\<open>False\<close>.

  The fragment of the pattern syntax interpreted here: a character with no special meaning
  stands for itself, \<^verbatim>\<open>.\<close> for any character but a newline, a backslash before a special
  character for that character, backslash-d for a decimal digit and backslash-D for anything
  else. Two ways in which compilation fails are modelled: a pattern that ends in a lone
  backslash, and an opening parenthesis with no closing parenthesis anywhere after it.
  Everything else (quantifiers, classes, groups, anchors, alternation, other escapes) is
  \<open>ReBeyond\<close>.
\<close>

definition backslash :: char where
  "backslash = CHR 0x5C"

definition is_meta :: "char \<Rightarrow> bool" where
  "is_meta c \<longleftrightarrow> c \<in> set ''.^$*+?{}[]|()'' \<or> c = backslash"

definition plain_text :: "string \<Rightarrow> bool" where
  "plain_text s \<longleftrightarrow> (\<forall>c \<in> set s. \<not> is_meta c)"

datatype atom = Lit char | AnyChar | Digit | NonDigit

datatype compiled = ReError | ReBeyond | RePattern "atom list"

fun cons_atom :: "atom \<Rightarrow> compiled \<Rightarrow> compiled" where
  "cons_atom a (RePattern p) = RePattern (a # p)"
| "cons_atom a ReError = ReError"
| "cons_atom a ReBeyond = ReBeyond"

fun re_compile :: "string \<Rightarrow> compiled" where
  "re_compile [] = RePattern []"
| "re_compile (c # cs) =
     (if c = backslash then
        (case cs of
           [] \<Rightarrow> ReError
         | e # es \<Rightarrow>
             if e = CHR ''d'' then cons_atom Digit (re_compile es)
             else if e = CHR ''D'' then cons_atom NonDigit (re_compile es)
             else if is_meta e then cons_atom (Lit e) (re_compile es)
             else ReBeyond)
      else if c = CHR ''.'' then cons_atom AnyChar (re_compile cs)
      else if c = CHR ''('' \<and> CHR '')'' \<notin> set cs then ReError
      else if is_meta c then ReBeyond
      else cons_atom (Lit c) (re_compile cs))"

text \<open>
  Case folding under \<^verbatim>\<open>re.IGNORECASE\<close>, on code points below 256: the letters A to Z and
  the accented capitals 192 to 222 (but not the multiplication sign, 215) fold to the code
  point 32 above.
\<close>

definition lower_chr :: "char \<Rightarrow> char" where
  "lower_chr c =
     (let n = (of_char c :: nat)
      in if (65 \<le> n \<and> n \<le> 90) \<or> (192 \<le> n \<and> n \<le> 222 \<and> n \<noteq> 215)
         then char_of (n + 32) else c)"

definition is_digit :: "char \<Rightarrow> bool" where
  "is_digit c \<longleftrightarrow> 48 \<le> (of_char c :: nat) \<and> (of_char c :: nat) \<le> 57"

fun atom_match :: "atom \<Rightarrow> char \<Rightarrow> bool" where
  "atom_match (Lit p) c \<longleftrightarrow> lower_chr p = lower_chr c"
| "atom_match AnyChar c \<longleftrightarrow> c \<noteq> CHR 0x0A"
| "atom_match Digit c \<longleftrightarrow> is_digit c"
| "atom_match NonDigit c \<longleftrightarrow> \<not> is_digit c"

text \<open>\<open>re_match\<close> matches at the start of the text, \<open>re_search\<close> at any position.\<close>

fun re_match :: "atom list \<Rightarrow> string \<Rightarrow> bool" where
  "re_match [] s = True"
| "re_match (a # p) [] = False"
| "re_match (a # p) (c # s) \<longleftrightarrow> atom_match a c \<and> re_match p s"

fun re_search :: "atom list \<Rightarrow> string \<Rightarrow> bool" where
  "re_search p [] = re_match p []"
| "re_search p (c # s) \<longleftrightarrow> re_match p (c # s) \<or> re_search p s"

definition str_contains :: "string option list \<Rightarrow> string \<Rightarrow> error + bool list" where
  "str_contains col pat =
     (case re_compile pat of
        ReError \<Rightarrow> Inl PatternError
      | ReBeyond \<Rightarrow> Inl PatternOutsideModel
      | RePattern p \<Rightarrow>
          Inr (map (\<lambda>x. case x of None \<Rightarrow> False | Some s \<Rightarrow> re_search p s) col))"

section \<open>The filter function\<close>

text \<open>
  \<^verbatim>\<open>apply_filters(df, min_price, max_price, neighborhoods=None, room_type=None,
  min_avail=0, max_avail=365, min_reviews=0, search_text=None)\<close>. An optional argument is
  used only when it is truthy: a non-empty list, a non-empty string. The result is the
  filtered frame, the average price and the row count.
\<close>

definition apply_filters ::
  "listing list \<Rightarrow> rat \<Rightarrow> rat \<Rightarrow> string list option \<Rightarrow> string option \<Rightarrow> int \<Rightarrow> int \<Rightarrow> int
     \<Rightarrow> string option \<Rightarrow> error + (listing list \<times> rat option \<times> nat)" where
  "apply_filters df min_price max_price neighborhoods room_type' min_avail max_avail
       min_reviews search_text =
     (let filtered0 = getitem_mask df
            (mask_and (mask_and (mask_and (mask_and
               (col_ge (map price df) min_price)
               (col_le (map price df) max_price))
               (col_ge (map availability_365 df) min_avail))
               (col_le (map availability_365 df) max_avail))
               (col_ge (map number_of_reviews df) min_reviews));
          filtered1 =
            (case neighborhoods of
               Some ns \<Rightarrow>
                 if ns \<noteq> []
                 then getitem_mask filtered0 (col_isin (map neighbourhood filtered0) ns)
                 else filtered0
             | None \<Rightarrow> filtered0);
          filtered2 =
            (case room_type' of
               Some rt \<Rightarrow>
                 if rt \<noteq> []
                 then getitem_mask filtered1 (col_eq (map room_type filtered1) rt)
                 else filtered1
             | None \<Rightarrow> filtered1);
          filtered3 =
            (case search_text of
               Some s \<Rightarrow>
                 if s \<noteq> []
                 then (case str_contains (map name filtered2) s of
                         Inl e \<Rightarrow> Inl e
                       | Inr msk \<Rightarrow> Inr (getitem_mask filtered2 msk))
                 else Inr filtered2
             | None \<Rightarrow> Inr filtered2)
      in case filtered3 of
           Inl e \<Rightarrow> Inl e
         | Inr filtered \<Rightarrow>
             Inr (filtered,
                  (if filtered \<noteq> [] then series_mean (map price filtered) else Some 0),
                  length filtered))"

section \<open>Dashboard aggregates\<close>

text \<open>
  \<^verbatim>\<open>airbnb_data.groupby("neighbourhood")["price"].mean()\<close> is a Series with one entry per
  neighbourhood, in sorted key order; \<^verbatim>\<open>idxmax()\<close> and \<^verbatim>\<open>idxmin()\<close> give the label of the
  first largest and first smallest entry and raise \<^verbatim>\<open>ValueError\<close> on an empty Series.
\<close>

definition groupby_mean :: "listing list \<Rightarrow> (string \<times> rat) list" where
  "groupby_mean df =
     map (\<lambda>k. (k, (let g = map price (filter (\<lambda>r. neighbourhood r = k) df)
                   in sum_list g / of_nat (length g))))
       (sort (remdups (map neighbourhood df)))"

fun idxmax :: "(string \<times> rat) list \<Rightarrow> error + string" where
  "idxmax [] = Inl ValueError"
| "idxmax (e # es) = Inr (fst (fold (\<lambda>x best. if snd best < snd x then x else best) es e))"

fun idxmin :: "(string \<times> rat) list \<Rightarrow> error + string" where
  "idxmin [] = Inl ValueError"
| "idxmin (e # es) = Inr (fst (fold (\<lambda>x best. if snd x < snd best then x else best) es e))"

definition priciest_neighborhood :: "listing list \<Rightarrow> error + string" where
  "priciest_neighborhood df = idxmax (groupby_mean df)"

definition cheapest_neighborhood :: "listing list \<Rightarrow> error + string" where
  "cheapest_neighborhood df = idxmin (groupby_mean df)"

section \<open>The example dataset\<close>

definition cozy_loft :: listing where
  "cozy_loft = \<lparr>name = Some ''Cozy Loft'', neighbourhood = ''Back Bay'',
     room_type = ''Entire home/apt'', price = 120, availability_365 = 200,
     number_of_reviews = 10, latitude = 4235 / 100, longitude = - (7108 / 100)\<rparr>"

definition shared_room :: listing where
  "shared_room = \<lparr>name = Some ''Shared Room'', neighbourhood = ''Allston'',
     room_type = ''Private room'', price = 40, availability_365 = 300,
     number_of_reviews = 2, latitude = 4234 / 100, longitude = - (7113 / 100)\<rparr>"

definition example_dataset :: "listing list" where
  "example_dataset = [cozy_loft, shared_room]"


section \<open>Notions used to state the properties\<close>

text \<open>
  The ranges the data model gives the two integer columns: availability is a number of days
  of a year, the review count is not negative.
\<close>

definition valid_listing :: "listing \<Rightarrow> bool" where
  "valid_listing r \<longleftrightarrow>
     0 \<le> availability_365 r \<and> availability_365 r \<le> 365 \<and> 0 \<le> number_of_reviews r"

text \<open>
  Containment of a text in a name without regard to letter case, and two texts that differ
  in letter case only.
\<close>

definition ci_contains :: "string \<Rightarrow> string \<Rightarrow> bool" where
  "ci_contains s t \<longleftrightarrow> sublist (map lower_chr s) (map lower_chr t)"

definition same_up_to_case :: "string \<Rightarrow> string \<Rightarrow> bool" where
  "same_up_to_case s t \<longleftrightarrow> map lower_chr s = map lower_chr t"

text \<open>
  The pattern a search text contributes: none when the argument is \<^verbatim>\<open>None\<close> or empty,
  otherwise the compiled text, or the failure of its compilation.
\<close>

fun active_pattern :: "string option \<Rightarrow> error + atom list option" where
  "active_pattern None = Inr None"
| "active_pattern (Some s) =
     (if s = [] then Inr None
      else case re_compile s of
             ReError \<Rightarrow> Inl PatternError
           | ReBeyond \<Rightarrow> Inl PatternOutsideModel
           | RePattern p \<Rightarrow> Inr (Some p))"

text \<open>
  A row satisfies the criteria when it satisfies every active constraint: this is the
  specification's reading of the filter, one conjunction, against which the sequence of
  mask selections in \<open>apply_filters\<close> is compared. The four conjuncts are also named on
  their own, one per selection step.
\<close>

definition base_ok :: "rat \<Rightarrow> rat \<Rightarrow> int \<Rightarrow> int \<Rightarrow> int \<Rightarrow> listing \<Rightarrow> bool" where
  "base_ok min_price max_price min_avail max_avail min_reviews r \<longleftrightarrow>
     min_price \<le> price r \<and> price r \<le> max_price \<and> min_avail \<le> availability_365 r \<and>
     availability_365 r \<le> max_avail \<and> min_reviews \<le> number_of_reviews r"

definition neighborhoods_ok :: "string list option \<Rightarrow> listing \<Rightarrow> bool" where
  "neighborhoods_ok neighborhoods r \<longleftrightarrow>
     (case neighborhoods of None \<Rightarrow> True | Some ns \<Rightarrow> ns = [] \<or> neighbourhood r \<in> set ns)"

definition room_type_ok :: "string option \<Rightarrow> listing \<Rightarrow> bool" where
  "room_type_ok room_type' r \<longleftrightarrow>
     (case room_type' of None \<Rightarrow> True | Some rt \<Rightarrow> rt = [] \<or> room_type r = rt)"

definition name_ok :: "atom list option \<Rightarrow> listing \<Rightarrow> bool" where
  "name_ok pat r \<longleftrightarrow>
     (case pat of
        None \<Rightarrow> True
      | Some p \<Rightarrow> (case name r of None \<Rightarrow> False | Some nm \<Rightarrow> re_search p nm))"

definition satisfies_criteria ::
  "rat \<Rightarrow> rat \<Rightarrow> string list option \<Rightarrow> string option \<Rightarrow> int \<Rightarrow> int \<Rightarrow> int
     \<Rightarrow> atom list option \<Rightarrow> listing \<Rightarrow> bool" where
  "satisfies_criteria min_price max_price neighborhoods room_type' min_avail max_avail
       min_reviews pat r \<longleftrightarrow>
     min_price \<le> price r \<and> price r \<le> max_price \<and>
     min_avail \<le> availability_365 r \<and> availability_365 r \<le> max_avail \<and>
     min_reviews \<le> number_of_reviews r \<and>
     (case neighborhoods of None \<Rightarrow> True | Some ns \<Rightarrow> ns = [] \<or> neighbourhood r \<in> set ns) \<and>
     (case room_type' of None \<Rightarrow> True | Some rt \<Rightarrow> rt = [] \<or> room_type r = rt) \<and>
     (case pat of
        None \<Rightarrow> True
      | Some p \<Rightarrow> (case name r of None \<Rightarrow> False | Some nm \<Rightarrow> re_search p nm))"

text \<open>The triple \<open>apply_filters\<close> returns for a filtered frame.\<close>

definition summary :: "listing list \<Rightarrow> listing list \<times> rat option \<times> nat" where
  "summary rows =
     (rows, (if rows \<noteq> [] then series_mean (map price rows) else Some 0), length rows)"

text \<open>The mean price over the listings of one neighbourhood (NaN when it has none).\<close>

definition neighbourhood_mean :: "listing list \<Rightarrow> string \<Rightarrow> rat option" where
  "neighbourhood_mean df k = series_mean (map price (filter (\<lambda>r. neighbourhood r = k) df))"

section \<open>Mask selection is filtering\<close>

lemma getitem_mask_map: "getitem_mask df (map P df) = filter P df"
  by (induction df) (simp_all add: getitem_mask_def)

lemma mask_and_map: "mask_and (map P xs) (map Q xs) = map (\<lambda>x. P x \<and> Q x) xs"
  by (induction xs) (simp_all add: mask_and_def)

lemma col_ge_map: "col_ge (map f df) v = map (\<lambda>r. v \<le> f r) df"
  by (simp add: col_ge_def)

lemma col_le_map: "col_le (map f df) v = map (\<lambda>r. f r \<le> v) df"
  by (simp add: col_le_def)

lemma col_eq_map: "col_eq (map f df) v = map (\<lambda>r. f r = v) df"
  by (simp add: col_eq_def)

lemma col_isin_map: "col_isin (map f df) vs = map (\<lambda>r. f r \<in> set vs) df"
  by (simp add: col_isin_def)

lemmas col_maps = col_ge_map col_le_map col_eq_map col_isin_map mask_and_map getitem_mask_map

lemma str_contains_map:
  "re_compile s = RePattern p \<Longrightarrow>
   str_contains (map name df) s =
     Inr (map (\<lambda>r. case name r of None \<Rightarrow> False | Some nm \<Rightarrow> re_search p nm) df)"
  by (simp add: str_contains_def comp_def)

lemma satisfies_criteria_split:
  "satisfies_criteria lo hi ns rt amin amax rmin pat r \<longleftrightarrow>
     base_ok lo hi amin amax rmin r \<and> neighborhoods_ok ns r \<and> room_type_ok rt r \<and> name_ok pat r"
  by (simp add: satisfies_criteria_def base_ok_def neighborhoods_ok_def room_type_ok_def
      name_ok_def)

lemma base_step:
  "getitem_mask df
     (mask_and (mask_and (mask_and (mask_and
        (col_ge (map price df) lo)
        (col_le (map price df) hi))
        (col_ge (map availability_365 df) amin))
        (col_le (map availability_365 df) amax))
        (col_ge (map number_of_reviews df) rmin))
   = filter (base_ok lo hi amin amax rmin) df"
proof -
  have "base_ok lo hi amin amax rmin =
      (\<lambda>r. (((lo \<le> price r \<and> price r \<le> hi) \<and> amin \<le> availability_365 r) \<and>
         availability_365 r \<le> amax) \<and> rmin \<le> number_of_reviews r)"
    by (auto simp: base_ok_def fun_eq_iff)
  then show ?thesis
    by (simp only: col_maps)
qed

lemma neighborhoods_step:
  "(case ns of
      Some xs \<Rightarrow>
        if xs \<noteq> [] then getitem_mask f0 (col_isin (map neighbourhood f0) xs) else f0
    | None \<Rightarrow> f0) = filter (neighborhoods_ok ns) f0"
proof (cases ns)
  case None
  then show ?thesis by (simp add: neighborhoods_ok_def)
next
  case (Some xs)
  have "neighborhoods_ok (Some xs) = (\<lambda>r. xs = [] \<or> neighbourhood r \<in> set xs)"
    by (simp add: neighborhoods_ok_def fun_eq_iff)
  with Some show ?thesis by (simp add: col_maps)
qed

lemma room_type_step:
  "(case rt of
      Some t \<Rightarrow>
        if t \<noteq> [] then getitem_mask f1 (col_eq (map room_type f1) t) else f1
    | None \<Rightarrow> f1) = filter (room_type_ok rt) f1"
proof (cases rt)
  case None
  then show ?thesis by (simp add: room_type_ok_def)
next
  case (Some t)
  have "room_type_ok (Some t) = (\<lambda>r. t = [] \<or> room_type r = t)"
    by (simp add: room_type_ok_def fun_eq_iff)
  with Some show ?thesis by (simp add: col_maps)
qed

lemma search_step:
  "(case st of
      Some s \<Rightarrow>
        if s \<noteq> []
        then (case str_contains (map name f2) s of
                Inl e \<Rightarrow> Inl e
              | Inr msk \<Rightarrow> Inr (getitem_mask f2 msk))
        else Inr f2
    | None \<Rightarrow> Inr f2) =
   (case active_pattern st of Inl e \<Rightarrow> Inl e | Inr pat \<Rightarrow> Inr (filter (name_ok pat) f2))"
proof (cases st)
  case None
  then show ?thesis by (simp add: name_ok_def)
next
  case (Some s)
  show ?thesis
  proof (cases "s = []")
    case True
    with Some show ?thesis by (simp add: name_ok_def)
  next
    case False
    show ?thesis
    proof (cases "re_compile s")
      case ReError
      with Some False show ?thesis by (simp add: str_contains_def)
    next
      case ReBeyond
      with Some False show ?thesis by (simp add: str_contains_def)
    next
      case (RePattern p)
      have "name_ok (Some p) = (\<lambda>r. case name r of None \<Rightarrow> False | Some nm \<Rightarrow> re_search p nm)"
        by (simp add: name_ok_def fun_eq_iff)
      with Some False RePattern show ?thesis
        by (simp add: str_contains_map getitem_mask_map)
    qed
  qed
qed

lemma filter_criteria:
  "filter (name_ok pat) (filter (room_type_ok rt) (filter (neighborhoods_ok ns)
     (filter (base_ok lo hi amin amax rmin) df))) =
   filter (satisfies_criteria lo hi ns rt amin amax rmin pat) df"
  by (induction df) (simp_all add: satisfies_criteria_split)

text \<open>
  The function as a whole: it fails exactly when the search text fails to compile, and
  otherwise returns the rows that satisfy the criteria, in their order, with their summary.
\<close>

lemma apply_filters_char:
  "apply_filters df lo hi ns rt amin amax rmin st =
     (case active_pattern st of
        Inl e \<Rightarrow> Inl e
      | Inr pat \<Rightarrow> Inr (summary (filter (satisfies_criteria lo hi ns rt amin amax rmin pat) df)))"
  unfolding apply_filters_def Let_def base_step neighborhoods_step room_type_step search_step
  by (cases "active_pattern st") (simp_all add: filter_criteria summary_def del: filter_filter)


lemma apply_filters_pattern:
  assumes "active_pattern st = Inr pat"
  shows "apply_filters df lo hi ns rt amin amax rmin st =
           Inr (summary (filter (satisfies_criteria lo hi ns rt amin amax rmin pat) df))"
  using assms by (simp add: apply_filters_char)




section \<open>A text without special characters is searched for literally\<close>

lemma plain_compile: "plain_text s \<Longrightarrow> re_compile s = RePattern (map Lit s)"
proof (induction s)
  case Nil
  show ?case by simp
next
  case (Cons c s)
  from Cons.prems have c: "\<not> is_meta c" and s: "plain_text s"
    by (simp_all add: plain_text_def)
  from c have "c \<noteq> backslash" "c \<noteq> CHR ''.''" "c \<noteq> CHR ''(''"
    by (auto simp: is_meta_def)
  with c Cons.IH[OF s] show ?case by simp
qed

lemma re_match_lit:
  "re_match (map Lit s) t \<longleftrightarrow> prefix (map lower_chr s) (map lower_chr t)"
proof (induction s arbitrary: t)
  case Nil
  show ?case by simp
next
  case (Cons c s)
  show ?case
  proof (cases t)
    case Nil
    then show ?thesis by simp
  next
    case (Cons d t')
    with Cons.IH[of t'] show ?thesis by simp
  qed
qed

lemma re_search_lit: "re_search (map Lit s) t \<longleftrightarrow> ci_contains s t"
proof (induction t)
  case Nil
  show ?case by (cases s) (simp_all add: ci_contains_def)
next
  case (Cons d t)
  have "sublist (map lower_chr s) (map lower_chr (d # t)) \<longleftrightarrow>
      prefix (map lower_chr s) (map lower_chr (d # t)) \<or>
      sublist (map lower_chr s) (map lower_chr t)"
    by (simp add: sublist_Cons_right)
  with Cons.IH show ?case
    by (simp add: ci_contains_def re_match_lit)
qed

section \<open>Minimum, maximum and the neighbourhood table\<close>

lemma series_min_le: "series_min xs = Some lo \<Longrightarrow> x \<in> set xs \<Longrightarrow> lo \<le> x"
proof (cases xs)
  case Nil
  assume "series_min xs = Some lo"
  with Nil show ?thesis by simp
next
  case (Cons y ys)
  assume "series_min xs = Some lo" and x: "x \<in> set xs"
  moreover have "Min (set (y # ys)) = fold min ys y"
    by (rule Min.set_eq_fold)
  ultimately have "lo = Min (set xs)" and "x \<in> set xs"
    using Cons by simp_all
  then show ?thesis by simp
qed

lemma series_max_ge: "series_max xs = Some hi \<Longrightarrow> x \<in> set xs \<Longrightarrow> x \<le> hi"
proof (cases xs)
  case Nil
  assume "series_max xs = Some hi"
  with Nil show ?thesis by simp
next
  case (Cons y ys)
  assume "series_max xs = Some hi" and x: "x \<in> set xs"
  moreover have "Max (set (y # ys)) = fold max ys y"
    by (rule Max.set_eq_fold)
  ultimately have "hi = Max (set xs)" and "x \<in> set xs"
    using Cons by simp_all
  then show ?thesis by simp
qed

lemma fold_larger:
  "fold (\<lambda>x best. if snd best < snd x then x else best) es e \<in> set (e # es) \<and>
   (\<forall>x \<in> set (e # es). snd x \<le> snd (fold (\<lambda>x best. if snd best < snd x then x else best) es e))"
  for e :: "string \<times> rat"
proof (induction es arbitrary: e)
  case Nil
  show ?case by simp
next
  case (Cons y es)
  let ?e' = "if snd e < snd y then y else e"
  from Cons.IH[of ?e'] show ?case
    by (auto split: if_splits)
qed

lemma fold_smaller:
  "fold (\<lambda>x best. if snd x < snd best then x else best) es e \<in> set (e # es) \<and>
   (\<forall>x \<in> set (e # es). snd (fold (\<lambda>x best. if snd x < snd best then x else best) es e) \<le> snd x)"
  for e :: "string \<times> rat"
proof (induction es arbitrary: e)
  case Nil
  show ?case by simp
next
  case (Cons y es)
  let ?e' = "if snd y < snd e then y else e"
  from Cons.IH[of ?e'] show ?case
    by (auto split: if_splits)
qed

lemma idxmax_largest:
  assumes "es \<noteq> []"
  shows "\<exists>k v. idxmax es = Inr k \<and> (k, v) \<in> set es \<and> (\<forall>x \<in> set es. snd x \<le> v)"
proof (cases es)
  case Nil
  with assms show ?thesis by simp
next
  case (Cons e es')
  let ?b = "fold (\<lambda>x best. if snd best < snd x then x else best) es' e"
  from fold_larger[of es' e] Cons
  have "idxmax es = Inr (fst ?b) \<and> (fst ?b, snd ?b) \<in> set es \<and> (\<forall>x \<in> set es. snd x \<le> snd ?b)"
    by simp
  then show ?thesis by blast
qed

lemma idxmin_smallest:
  assumes "es \<noteq> []"
  shows "\<exists>k v. idxmin es = Inr k \<and> (k, v) \<in> set es \<and> (\<forall>x \<in> set es. v \<le> snd x)"
proof (cases es)
  case Nil
  with assms show ?thesis by simp
next
  case (Cons e es')
  let ?b = "fold (\<lambda>x best. if snd x < snd best then x else best) es' e"
  from fold_smaller[of es' e] Cons
  have "idxmin es = Inr (fst ?b) \<and> (fst ?b, snd ?b) \<in> set es \<and> (\<forall>x \<in> set es. snd ?b \<le> snd x)"
    by simp
  then show ?thesis by blast
qed

lemma groupby_mean_entry:
  "(k, v) \<in> set (groupby_mean df) \<longleftrightarrow>
     k \<in> neighbourhood ` set df \<and> neighbourhood_mean df k = Some v"
proof -
  have "filter (\<lambda>r. neighbourhood r = k) df \<noteq> []" if "k \<in> neighbourhood ` set df"
    using that by (auto simp: filter_empty_conv)
  then show ?thesis
    by (auto simp: groupby_mean_def neighbourhood_mean_def series_mean_def Let_def)
qed

lemma map_of_groupby_mean:
  "map_of (groupby_mean df) k =
     (if k \<in> neighbourhood ` set df then neighbourhood_mean df k else None)"
proof -
  have "map_of (map (\<lambda>k. (k, f k)) ks) k = (if k \<in> set ks then Some (f k) else None)"
    for f :: "string \<Rightarrow> rat" and ks
    by (induction ks) auto
  moreover have "filter (\<lambda>r. neighbourhood r = k) df \<noteq> []" if "k \<in> neighbourhood ` set df"
    using that by (auto simp: filter_empty_conv)
  ultimately show ?thesis
    by (auto simp: groupby_mean_def neighbourhood_mean_def series_mean_def Let_def)
qed

section \<open>Properties of the filter\<close>

subsection \<open>The rows of the result\<close>




subsection \<open>The widest criteria\<close>

text \<open>
  Claim C2. On a dataset whose availabilities and review counts lie in the ranges of the data
  model, the call with \<open>min_price\<close> the least price of the dataset, \<open>max_price\<close> its
  greatest price, the availability range 0 to 365, no minimum of reviews and no restriction
  of neighbourhood, room type or text returns the dataset itself, the mean price of the
  whole dataset and the number of its rows.
\<close>

theorem widest_criteria_return_dataset:
  assumes lo: "series_min (map price df) = Some lo"
    and hi: "series_max (map price df) = Some hi"
    and valid: "\<forall>r \<in> set df. valid_listing r"
    and ns: "ns = None \<or> ns = Some []"
    and rt: "rt = None \<or> rt = Some []"
    and st: "st = None \<or> st = Some []"
  shows "apply_filters df lo hi ns rt 0 365 0 st = Inr (df, series_mean (map price df), length df)"
proof -
  from st have pat: "active_pattern st = Inr None"
    by auto
  have "satisfies_criteria lo hi ns rt 0 365 0 None r" if r: "r \<in> set df" for r
  proof -
    from r have "price r \<in> set (map price df)"
      by simp
    then have "lo \<le> price r" "price r \<le> hi"
      using series_min_le[OF lo] series_max_ge[OF hi] by blast+
    moreover from valid r have "valid_listing r" ..
    ultimately show ?thesis
      using ns rt by (auto simp: satisfies_criteria_def valid_listing_def)
  qed
  then have all: "filter (satisfies_criteria lo hi ns rt 0 365 0 None) df = df"
    by (simp add: filter_id_conv)
  from lo have "df \<noteq> []"
    by auto
  then show ?thesis
    by (simp add: apply_filters_pattern[OF pat] all summary_def)
qed

theorem widest_criteria_return_dataset_witness:
  "apply_filters example_dataset 40 120 None None 0 365 0 None =
     Inr (example_dataset, Some 80, 2)"
proof -
  have lo: "series_min (map price example_dataset) = Some 40"
    by code_simp
  have hi: "series_max (map price example_dataset) = Some 120"
    by code_simp
  have valid: "\<forall>r \<in> set example_dataset. valid_listing r"
    by code_simp
  have m: "series_mean (map price example_dataset) = Some 80"
    by code_simp
  have l: "length example_dataset = 2"
    by code_simp
  from widest_criteria_return_dataset[OF lo hi valid, of None None None] show ?thesis
    by (simp add: m l)
qed

subsection \<open>The empty result\<close>



subsection \<open>Letter case of the search text\<close>

text \<open>
  Claim C4, as the code has it. Two search texts without special characters that differ in
  letter case only give the same outcome on every dataset and with every other criterion:
  the same rows, the same average price and the same count.
\<close>

theorem plain_search_ignores_case:
  assumes "plain_text s" and "plain_text t" and "same_up_to_case s t"
  shows "apply_filters df lo hi ns rt amin amax rmin (Some s) =
         apply_filters df lo hi ns rt amin amax rmin (Some t)"
proof -
  have "re_search (map Lit s) nm = re_search (map Lit t) nm" for nm
    using assms(3) by (simp add: re_search_lit ci_contains_def same_up_to_case_def)
  then have srch: "name_ok (Some (map Lit s)) = name_ok (Some (map Lit t))"
    by (auto simp: name_ok_def fun_eq_iff split: option.splits)
  from assms(3) have e: "s = [] \<longleftrightarrow> t = []"
    by (auto simp: same_up_to_case_def)
  have "satisfies_criteria lo hi ns rt amin amax rmin (Some (map Lit s)) =
      satisfies_criteria lo hi ns rt amin amax rmin (Some (map Lit t))"
    using srch by (simp add: satisfies_criteria_split fun_eq_iff)
  then show ?thesis
    using e by (simp add: apply_filters_char plain_compile[OF assms(1)] plain_compile[OF assms(2)])
qed

theorem plain_search_ignores_case_witness:
  "apply_filters example_dataset 0 200 None None 0 365 0 (Some ''loft'') =
     Inr ([cozy_loft], Some 120, 1) \<and>
   apply_filters example_dataset 0 200 None None 0 365 0 (Some ''LOFT'') =
     Inr ([cozy_loft], Some 120, 1)"
proof -
  have p1: "plain_text ''loft''" and p2: "plain_text ''LOFT''"
    and c: "same_up_to_case ''loft'' ''LOFT''"
    by code_simp+
  have h: "apply_filters example_dataset 0 200 None None 0 365 0 (Some ''loft'') =
     Inr ([cozy_loft], Some 120, 1)"
    by code_simp
  from plain_search_ignores_case[OF p1 p2 c, of example_dataset 0 200 None None 0 365 0] h
  show ?thesis
    by simp
qed

text \<open>
  With an escape the letter case carries meaning. Backslash-d and backslash-D differ in
  letter case only; on the example dataset, whose names hold no digit, the first selects no
  listing and the second selects both.
\<close>

theorem escape_case_counterexample:
  "same_up_to_case [backslash, CHR ''d''] [backslash, CHR ''D''] \<and>
   apply_filters example_dataset 0 200 None None 0 365 0 (Some [backslash, CHR ''d'']) =
     Inr ([], Some 0, 0) \<and>
   apply_filters example_dataset 0 200 None None 0 365 0 (Some [backslash, CHR ''D'']) =
     Inr (example_dataset, Some 80, 2)"
  by code_simp

subsection \<open>The average and the count\<close>



subsection \<open>Bounds in the wrong order\<close>




subsection \<open>Row order\<close>



subsection \<open>Listings without a name\<close>




subsection \<open>Filtering twice\<close>



section \<open>Properties of the dashboard aggregates\<close>

text \<open>
  Claim C6. On a dataset that is not empty the table of neighbourhood means holds, for the
  neighbourhood of every listing, the mean price over the listings of that neighbourhood;
  the neighbourhood reported as most expensive has a mean no smaller than any of them and
  the one reported as most affordable has a mean no larger than any of them. On the example
  dataset the table maps Back Bay to 120 and Allston to 40, the most expensive neighbourhood
  is Back Bay and the most affordable is Allston.
\<close>

theorem neighbourhood_aggregation:
  "(df \<noteq> [] \<longrightarrow>
      (\<exists>top bot vtop vbot.
         priciest_neighborhood df = Inr top \<and> cheapest_neighborhood df = Inr bot \<and>
         neighbourhood_mean df top = Some vtop \<and> neighbourhood_mean df bot = Some vbot \<and>
         (\<forall>r \<in> set df. \<exists>v. map_of (groupby_mean df) (neighbourhood r) = Some v \<and>
              neighbourhood_mean df (neighbourhood r) = Some v \<and> vbot \<le> v \<and> v \<le> vtop))) \<and>
   map_of (groupby_mean example_dataset) = [''Back Bay'' \<mapsto> 120, ''Allston'' \<mapsto> 40] \<and>
   priciest_neighborhood example_dataset = Inr ''Back Bay'' \<and>
   cheapest_neighborhood example_dataset = Inr ''Allston''"
proof -
  have general: "\<exists>top bot vtop vbot.
         priciest_neighborhood df = Inr top \<and> cheapest_neighborhood df = Inr bot \<and>
         neighbourhood_mean df top = Some vtop \<and> neighbourhood_mean df bot = Some vbot \<and>
         (\<forall>r \<in> set df. \<exists>v. map_of (groupby_mean df) (neighbourhood r) = Some v \<and>
              neighbourhood_mean df (neighbourhood r) = Some v \<and> vbot \<le> v \<and> v \<le> vtop)"
    if "df \<noteq> []"
  proof -
    from that have "set (sort (remdups (map neighbourhood df))) \<noteq> {}"
      by simp
    then have "sort (remdups (map neighbourhood df)) \<noteq> []"
      by (simp only: set_empty not_False_eq_True)
    then have ne: "groupby_mean df \<noteq> []"
      by (simp add: groupby_mean_def)
    from idxmax_largest[OF ne] obtain top vtop where
      top: "idxmax (groupby_mean df) = Inr top" "(top, vtop) \<in> set (groupby_mean df)"
        "\<forall>x \<in> set (groupby_mean df). snd x \<le> vtop"
      by blast
    from idxmin_smallest[OF ne] obtain bot vbot where
      bot: "idxmin (groupby_mean df) = Inr bot" "(bot, vbot) \<in> set (groupby_mean df)"
        "\<forall>x \<in> set (groupby_mean df). vbot \<le> snd x"
      by blast
    have each: "\<exists>v. map_of (groupby_mean df) (neighbourhood r) = Some v \<and>
        neighbourhood_mean df (neighbourhood r) = Some v \<and> vbot \<le> v \<and> v \<le> vtop"
      if r: "r \<in> set df" for r
    proof -
      from r have k: "neighbourhood r \<in> neighbourhood ` set df"
        by simp
      then have "filter (\<lambda>x. neighbourhood x = neighbourhood r) df \<noteq> []"
        by (auto simp: filter_empty_conv)
      then obtain v where v: "neighbourhood_mean df (neighbourhood r) = Some v"
        by (auto simp: neighbourhood_mean_def series_mean_def)
      with k have "(neighbourhood r, v) \<in> set (groupby_mean df)"
        by (simp add: groupby_mean_entry)
      with top(3) bot(3) have "vbot \<le> v" "v \<le> vtop"
        by fastforce+
      with v k show ?thesis
        by (simp add: map_of_groupby_mean)
    qed
    from top(2) bot(2) have "neighbourhood_mean df top = Some vtop"
      "neighbourhood_mean df bot = Some vbot"
      by (simp_all add: groupby_mean_entry)
    with top(1) bot(1) each show ?thesis
      unfolding priciest_neighborhood_def cheapest_neighborhood_def by blast
  qed
  have g: "groupby_mean example_dataset = [(''Allston'', 40), (''Back Bay'', 120)]"
    by code_simp
  have m: "map_of (groupby_mean example_dataset) = [''Back Bay'' \<mapsto> 120, ''Allston'' \<mapsto> 40]"
    unfolding g by (auto simp: fun_eq_iff)
  have p: "priciest_neighborhood example_dataset = Inr ''Back Bay''"
    by code_simp
  have c: "cheapest_neighborhood example_dataset = Inr ''Allston''"
    by code_simp
  from general m p c show ?thesis
    by blast
qed

theorem neighbourhood_aggregation_witness:
  "priciest_neighborhood example_dataset = Inr ''Back Bay'' \<and>
   cheapest_neighborhood example_dataset = Inr ''Allston'' \<and>
   neighbourhood_mean example_dataset ''Back Bay'' = Some 120 \<and>
   neighbourhood_mean example_dataset ''Allston'' = Some 40"
proof -
  have "neighbourhood_mean example_dataset ''Back Bay'' = Some 120"
    "neighbourhood_mean example_dataset ''Allston'' = Some 40"
    by code_simp+
  with neighbourhood_aggregation[of example_dataset] show ?thesis
    by simp
qed

section \<open>The examples of the specification\<close>

text \<open>
  On the example dataset, the price range 50 to 200 with every other argument at its default
  selects the listing Cozy Loft alone, with average price 120 and count 1.
\<close>

theorem example_price_range:
  "apply_filters example_dataset 50 200 None None 0 365 0 None =
     Inr ([cozy_loft], Some 120, 1)"
  by code_simp

text \<open>
  On the example dataset, the neighbourhood list that holds Allston alone, with the price
  range of the whole dataset, selects the listing Shared Room alone.
\<close>

theorem example_neighbourhood_filter:
  "apply_filters example_dataset 40 120 (Some [''Allston'']) None 0 365 0 None =
     Inr ([shared_room], Some 40, 1)"
  by code_simp

end
